theory Spec2Isabelle
  imports
    Complex_Main
    "HOL-Library.Multiset"
    "HOL-Library.Product_Lexorder"
    "HOL-Library.List_Lexorder"
    "HOL-Library.Char_ord"
begin

section \<open>The 4-Day Live Training Tracker (app.py)\<close>

text \<open>
  A shallow embedding of the utility layer of \<^verbatim>\<open>app.py\<close>: the Brzycki estimate
  \<^verbatim>\<open>e1rm\<close>, the settings accessors, the weekly-volume aggregation of the dashboard,
  the photo writer and the CSV export/import of the workouts table.

  Conventions. Python floats are idealised as \<^typ>\<open>real\<close>; a missing number
  (\<^verbatim>\<open>None\<close> or \<^verbatim>\<open>NaN\<close>, what \<^verbatim>\<open>pd.isna\<close> accepts) is \<^term>\<open>None\<close>.
  Every exception the modelled code can raise is a value of \<open>error\<close>, returned as \<open>Inl\<close>.
\<close>

datatype error =
    ZeroDivisionError
  | KeyError string
  | TypeError
  | ValueError
  | UnidentifiedImageError
  | IntegrityError
  | OperationalError

subsection \<open>Estimated one-rep max\<close>

text \<open>
  \<^verbatim>\<open>
  def e1rm(weight, reps):
      # Brzycki estimate
      if pd.isna(weight) or pd.isna(reps) or reps <= 0:
          return np.nan
      return weight * (36 / (37 - reps))
  \<close>
  The result \<open>Inr None\<close> is \<^verbatim>\<open>np.nan\<close>. Python's \<^verbatim>\<open>/\<close> raises
  \<^verbatim>\<open>ZeroDivisionError\<close> on a zero divisor, for ints and floats alike.
\<close>

definition py_div :: "real \<Rightarrow> real \<Rightarrow> error + real" where
  "py_div a b = (if b = 0 then Inl ZeroDivisionError else Inr (a / b))"

definition e1rm :: "real option \<Rightarrow> real option \<Rightarrow> error + real option" where
  "e1rm weight reps =
     (case weight of
        None \<Rightarrow> Inr None
      | Some w \<Rightarrow>
          (case reps of
             None \<Rightarrow> Inr None
           | Some r \<Rightarrow>
               if r \<le> 0 then Inr None
               else (case py_div 36 (37 - r) of
                       Inl e \<Rightarrow> Inl e
                     | Inr q \<Rightarrow> Inr (Some (w * q)))))"

subsection \<open>Python values and dictionaries\<close>

text \<open>
  The values the settings dictionary can hold: what a row of the settings table or
  \<^verbatim>\<open>st.number_input\<close> yields (an int or a float), and the missing values
  \<^verbatim>\<open>NaN\<close> and \<^verbatim>\<open>None\<close> of a NULL column. A dictionary is an association list in
  insertion order; assigning a key keeps its position or appends it.
\<close>

datatype pyval = PInt int | PFloat real | PNaN | PNone

type_synonym pydict = "(string \<times> pyval) list"

fun dict_set :: "string \<Rightarrow> pyval \<Rightarrow> pydict \<Rightarrow> pydict" where
  "dict_set k v [] = [(k, v)]"
| "dict_set k v ((k', v') # kvs) =
     (if k' = k then (k, v) # kvs else (k', v') # dict_set k v kvs)"

definition dict_or :: "pydict \<Rightarrow> pydict \<Rightarrow> pydict" where
  \<comment> \<open>\<^verbatim>\<open>a | b\<close>: a copy of \<^verbatim>\<open>a\<close> updated with the items of \<^verbatim>\<open>b\<close> in order\<close>
  "dict_or a b = fold (\<lambda>(k, v) d. dict_set k v d) b a"

definition py_getitem :: "pydict \<Rightarrow> string \<Rightarrow> error + pyval" where
  \<comment> \<open>\<^verbatim>\<open>d[k]\<close>\<close>
  "py_getitem d k = (case map_of d k of None \<Rightarrow> Inl (KeyError k) | Some v \<Rightarrow> Inr v)"

definition py_int :: "pyval \<Rightarrow> error + int" where
  \<comment> \<open>\<^verbatim>\<open>int(x)\<close>: a float is truncated toward zero, NaN and None are refused\<close>
  "py_int x =
     (case x of
        PInt i \<Rightarrow> Inr i
      | PFloat r \<Rightarrow> Inr (if r < 0 then \<lceil>r\<rceil> else \<lfloor>r\<rfloor>)
      | PNaN \<Rightarrow> Inl ValueError
      | PNone \<Rightarrow> Inl TypeError)"

definition bind_err :: "error + 'a \<Rightarrow> ('a \<Rightarrow> error + 'b) \<Rightarrow> error + 'b" where
  \<comment> \<open>sequencing: the first exception raised is the one that propagates\<close>
  "bind_err m f = (case m of Inl e \<Rightarrow> Inl e | Inr x \<Rightarrow> f x)"

subsection \<open>The settings table\<close>

text \<open>
  \<^verbatim>\<open>
  CREATE TABLE IF NOT EXISTS settings (
      id INTEGER PRIMARY KEY, calories INTEGER, protein_g INTEGER, fat_g INTEGER,
      carb_g_rest INTEGER, carb_g_lift INTEGER, carb_g_football INTEGER, tdee INTEGER);
  \<close>
  The table is the list of its rows in \<^verbatim>\<open>SELECT *\<close> order. The column \<^verbatim>\<open>id\<close> is the
  field \<open>settings_id\<close>.
\<close>

record settings_row =
  settings_id :: int
  calories :: int
  protein_g :: int
  fat_g :: int
  carb_g_rest :: int
  carb_g_lift :: int
  carb_g_football :: int
  tdee :: int

definition DEFAULT_MACROS :: pydict where
  "DEFAULT_MACROS =
     [(''calories'', PInt 2450), (''protein_g'', PInt 190), (''fat_g'', PInt 60),
      (''carb_g_rest'', PInt 220), (''carb_g_lift'', PInt 280),
      (''carb_g_football'', PInt 320)]"

definition TDEE_EST :: int where
  "TDEE_EST = 3000"

text \<open>
  The start-up code seeds the table when it is empty:
  \<^verbatim>\<open>
  cur = conn.execute("SELECT COUNT(*) FROM settings").fetchone()[0]
  if cur == 0:
      conn.execute("INSERT INTO settings (id, calories, ...) VALUES (1, :cal, ...)", ...)
  \<close>
  with the values of \<^verbatim>\<open>DEFAULT_MACROS\<close> and \<^verbatim>\<open>TDEE_EST\<close>.
\<close>

definition seed_row :: settings_row where
  "seed_row =
     \<lparr>settings_id = 1, calories = 2450, protein_g = 190, fat_g = 60, carb_g_rest = 220,
      carb_g_lift = 280, carb_g_football = 320, tdee = 3000\<rparr>"

definition seed_settings :: "settings_row list \<Rightarrow> settings_row list" where
  "seed_settings s = (if length s = 0 then s @ [seed_row] else s)"

definition to_dict :: "settings_row \<Rightarrow> pydict" where
  \<comment> \<open>\<^verbatim>\<open>s.iloc[0].to_dict()\<close>: every column of the row, \<^verbatim>\<open>id\<close> included\<close>
  "to_dict r =
     [(''id'', PInt (settings_id r)), (''calories'', PInt (calories r)),
      (''protein_g'', PInt (protein_g r)), (''fat_g'', PInt (fat_g r)),
      (''carb_g_rest'', PInt (carb_g_rest r)), (''carb_g_lift'', PInt (carb_g_lift r)),
      (''carb_g_football'', PInt (carb_g_football r)), (''tdee'', PInt (tdee r))]"

text \<open>
  \<^verbatim>\<open>
  def get_settings():
      s = load_table("settings")
      return s.iloc[0].to_dict() if len(s) else DEFAULT_MACROS | {"tdee": TDEE_EST}
  \<close>
\<close>

definition get_settings :: "settings_row list \<Rightarrow> pydict" where
  "get_settings s =
     (if length s \<noteq> 0 then to_dict (s ! 0)
      else dict_or DEFAULT_MACROS [(''tdee'', PInt TDEE_EST)])"

text \<open>
  \<^verbatim>\<open>
  def update_settings(d):
      with engine.begin() as conn:
          conn.execute("""
          UPDATE settings SET calories=:cal, protein_g=:p, fat_g=:f,
          carb_g_rest=:cr, carb_g_lift=:cl, carb_g_football=:cf, tdee=:tdee WHERE id=1
          """, dict(cal=int(d["calories"]), p=int(d["protein_g"]), f=int(d["fat_g"]),
                    cr=int(d["carb_g_rest"]), cl=int(d["carb_g_lift"]),
                    cf=int(d["carb_g_football"]), tdee=int(d["tdee"])))
  \<close>
  The bind parameters are evaluated left to right inside the \<^verbatim>\<open>with\<close> block, then
  the statement runs on the connection. \<^verbatim>\<open>engine.begin()\<close> opens a transaction that
  is committed when the block ends normally and rolled back when an exception leaves it.
\<close>

record bind =
  b_cal :: int
  b_p :: int
  b_f :: int
  b_cr :: int
  b_cl :: int
  b_cf :: int
  b_tdee :: int

definition int_item :: "pydict \<Rightarrow> string \<Rightarrow> error + int" where
  \<comment> \<open>\<^verbatim>\<open>int(d[k])\<close>\<close>
  "int_item d k = bind_err (py_getitem d k) py_int"

definition bind_params :: "pydict \<Rightarrow> error + bind" where
  "bind_params d =
     bind_err (int_item d ''calories'') (\<lambda>cal.
     bind_err (int_item d ''protein_g'') (\<lambda>p.
     bind_err (int_item d ''fat_g'') (\<lambda>f.
     bind_err (int_item d ''carb_g_rest'') (\<lambda>cr.
     bind_err (int_item d ''carb_g_lift'') (\<lambda>cl.
     bind_err (int_item d ''carb_g_football'') (\<lambda>cf.
     bind_err (int_item d ''tdee'') (\<lambda>td.
       Inr \<lparr>b_cal = cal, b_p = p, b_f = f, b_cr = cr, b_cl = cl, b_cf = cf,
            b_tdee = td\<rparr>)))))))"

definition set_clauses :: "bind \<Rightarrow> (settings_row \<Rightarrow> settings_row) list" where
  \<comment> \<open>the seven assignments of the SET clause, in the order of the statement\<close>
  "set_clauses q =
     [\<lambda>r. r\<lparr>calories := b_cal q\<rparr>, \<lambda>r. r\<lparr>protein_g := b_p q\<rparr>, \<lambda>r. r\<lparr>fat_g := b_f q\<rparr>,
      \<lambda>r. r\<lparr>carb_g_rest := b_cr q\<rparr>, \<lambda>r. r\<lparr>carb_g_lift := b_cl q\<rparr>,
      \<lambda>r. r\<lparr>carb_g_football := b_cf q\<rparr>, \<lambda>r. r\<lparr>tdee := b_tdee q\<rparr>]"

definition apply_clauses :: "(settings_row \<Rightarrow> settings_row) list \<Rightarrow> settings_row list \<Rightarrow> settings_row list" where
  \<comment> \<open>\<^verbatim>\<open>WHERE id=1\<close>: the assignments reach the rows whose id is 1, no other row\<close>
  "apply_clauses cs rows = map (\<lambda>r. if settings_id r = 1 then fold (\<lambda>c r. c r) cs r else r) rows"

text \<open>
  The store may fail while it executes the statement. \<open>fault = None\<close> is a store that
  works; \<open>fault = Some k\<close> is a store that raises after \<open>k\<close> of the seven assignments
  have reached the connection's working copy of the table. \<open>sql_update\<close> returns the
  exception raised, if any, and the working copy as the statement left it.
\<close>

definition sql_update :: "nat option \<Rightarrow> bind \<Rightarrow> settings_row list \<Rightarrow> error option \<times> settings_row list" where
  "sql_update fault q rows =
     (case fault of
        None \<Rightarrow> (None, apply_clauses (set_clauses q) rows)
      | Some k \<Rightarrow> (Some OperationalError, apply_clauses (take k (set_clauses q)) rows))"

record txn =
  committed :: "settings_row list"
  working :: "settings_row list"

definition begin_txn :: "settings_row list \<Rightarrow> txn" where
  "begin_txn db = \<lparr>committed = db, working = db\<rparr>"

definition commit :: "txn \<Rightarrow> settings_row list" where
  "commit t = working t"

definition rollback :: "txn \<Rightarrow> settings_row list" where
  "rollback t = committed t"

definition update_settings :: "nat option \<Rightarrow> pydict \<Rightarrow> settings_row list \<Rightarrow> (error + unit) \<times> settings_row list" where
  \<comment> \<open>the outcome of the call and the settings table after it\<close>
  "update_settings fault d db =
     (let t = begin_txn db in
      case bind_params d of
        Inl e \<Rightarrow> (Inl e, rollback t)
      | Inr q \<Rightarrow>
          (case sql_update fault q (working t) of
             (Some e, w) \<Rightarrow> (Inl e, rollback (t\<lparr>working := w\<rparr>))
           | (None, w) \<Rightarrow> (Inr (), commit (t\<lparr>working := w\<rparr>))))"

subsection \<open>Weekly training volume\<close>

text \<open>
  The dashboard works on the workouts frame after \<^verbatim>\<open>pd.to_datetime\<close>: a row is a
  workout entry with its date. A date is its proleptic Gregorian ordinal, Python's
  \<^verbatim>\<open>date.toordinal()\<close> (day 1 is 0001-01-01, a Monday); integers are unbounded.
  The column \<^verbatim>\<open>notes\<close> is the field \<open>notes_txt\<close>.
\<close>

record entry =
  session_date :: int
  day_name :: string
  exercise :: string
  sets :: int
  reps :: int
  weight :: real
  rir :: real
  notes_txt :: string
















subsection \<open>Progress photos\<close>




text \<open>
  Modelled from the spec: \<^verbatim>\<open>Image.thumbnail\<close> belongs to the Pillow library and is
  not part of the source; the specification says of it that the image is downsized to
  fit within the given size. The model follows the size computation of Pillow's method
  (version 7 and later), on an image held in memory, for which \<^verbatim>\<open>draft\<close> does nothing:
  \<^verbatim>\<open>
  def round_aspect(number, key):
      return max(min(math.floor(number), math.ceil(number), key=key), 1)

  def preserve_aspect_ratio():
      x, y = provided_size
      if x >= self.width and y >= self.height:
          return
      aspect = self.width / self.height
      if x / y >= aspect:
          x = round_aspect(y * aspect, key=lambda n: abs(aspect - n / y))
      else:
          y = round_aspect(x / aspect, key=lambda n: 0 if n == 0 else abs(aspect - x / n))
      return x, y
  \<close>
  \<^verbatim>\<open>thumbnail\<close> returns at once, leaving the image as it is, when
  \<^verbatim>\<open>preserve_aspect_ratio\<close> returns nothing; otherwise it resizes the image to the
  size returned. Python's \<^verbatim>\<open>min\<close> keeps its first argument unless the second has a
  strictly smaller key.
\<close>

definition round_aspect :: "real \<Rightarrow> (int \<Rightarrow> real) \<Rightarrow> int" where
  "round_aspect number key =
     max (if key \<lceil>number\<rceil> < key \<lfloor>number\<rfloor> then \<lceil>number\<rceil> else \<lfloor>number\<rfloor>) 1"





subsection \<open>The workouts table, CSV export and import\<close>


























section \<open>Properties\<close>

subsection \<open>Estimated one-rep max\<close>

text \<open>
  C1. For every weight and reps, \<open>e1rm\<close> returns NaN when the weight is missing, the
  reps are missing or the reps are at most 0; otherwise it computes
  \<open>weight * 36 / (37 - reps)\<close>. The quotient is Python's: at \<open>reps = 37\<close> the divisor is
  zero and the division raises, everywhere else the value of the formula is returned.
\<close>

theorem e1rm_formula:
  "e1rm None ro = Inr None
   \<and> e1rm wo None = Inr None
   \<and> (r \<le> 0 \<longrightarrow> e1rm wo (Some r) = Inr None)
   \<and> (0 < r \<and> r \<noteq> 37 \<longrightarrow>
        e1rm (Some w) (Some r) = Inr (Some (w * 36 / (37 - r))))
   \<and> e1rm (Some w) (Some 37) = Inl ZeroDivisionError"
  by (simp add: e1rm_def py_div_def split: option.splits)

theorem e1rm_formula_witness:
  "e1rm None (Some 8) = Inr None
   \<and> e1rm (Some 100) None = Inr None
   \<and> (- 1 :: real) \<le> 0 \<and> e1rm (Some 100) (Some (- 1)) = Inr None
   \<and> (0 :: real) < 10 \<and> (10 :: real) \<noteq> 37
   \<and> e1rm (Some 100) (Some 10) = Inr (Some (100 * 36 / (37 - 10)))
   \<and> e1rm (Some 100) (Some 37) = Inl ZeroDivisionError"
  using e1rm_formula [of "Some 8" "Some 100" "- 1" 100]
    e1rm_formula [of "Some 8" "Some 100" 10 100]
  by simp





subsection \<open>Settings\<close>

text \<open>
  C8. For every state of the settings table, \<open>get_settings\<close> returns the row of the
  table (its first row, all eight columns) when the table is not empty, and the
  constructed defaults when it is empty: the six default macro targets followed by the
  TDEE estimate.
\<close>

theorem get_settings_row_or_defaults:
  "get_settings [] =
     [(''calories'', PInt 2450), (''protein_g'', PInt 190), (''fat_g'', PInt 60),
      (''carb_g_rest'', PInt 220), (''carb_g_lift'', PInt 280),
      (''carb_g_football'', PInt 320), (''tdee'', PInt 3000)]
   \<and> get_settings (r # rs) =
     [(''id'', PInt (settings_id r)), (''calories'', PInt (calories r)),
      (''protein_g'', PInt (protein_g r)), (''fat_g'', PInt (fat_g r)),
      (''carb_g_rest'', PInt (carb_g_rest r)), (''carb_g_lift'', PInt (carb_g_lift r)),
      (''carb_g_football'', PInt (carb_g_football r)), (''tdee'', PInt (tdee r))]"
  by (simp add: get_settings_def dict_or_def DEFAULT_MACROS_def TDEE_EST_def to_dict_def)

theorem get_settings_row_or_defaults_witness:
  "get_settings (seed_settings []) =
     [(''id'', PInt 1), (''calories'', PInt 2450), (''protein_g'', PInt 190),
      (''fat_g'', PInt 60), (''carb_g_rest'', PInt 220), (''carb_g_lift'', PInt 280),
      (''carb_g_football'', PInt 320), (''tdee'', PInt 3000)]"
  using get_settings_row_or_defaults [of seed_row "[]"]
  by (simp add: seed_settings_def seed_row_def)

lemma update_settings_failure:
  "fst (update_settings fault d db) = Inl e \<Longrightarrow> snd (update_settings fault d db) = db"
  by (auto simp: update_settings_def begin_txn_def rollback_def commit_def Let_def
      split: sum.splits prod.splits option.splits)

lemma update_settings_success:
  "fst (update_settings fault d db) = Inr () \<Longrightarrow>
   \<exists>q. bind_params d = Inr q \<and> fault = None \<and>
     snd (update_settings fault d db) =
       map (\<lambda>r. if settings_id r = 1
                then r\<lparr>calories := b_cal q, protein_g := b_p q, fat_g := b_f q,
                       carb_g_rest := b_cr q, carb_g_lift := b_cl q,
                       carb_g_football := b_cf q, tdee := b_tdee q\<rparr>
                else r) db"
  by (auto simp: update_settings_def begin_txn_def rollback_def commit_def Let_def
        sql_update_def apply_clauses_def set_clauses_def
      split: sum.splits prod.splits option.splits)

text \<open>
  C2. \<open>update_settings\<close> is atomic. Whenever the update fails (a key is missing, a
  value does not convert to an int, or the store raises part-way through the statement)
  the settings table is left exactly as it was, all seven value columns of every row
  included. Whenever it succeeds, all seven columns of the row with id 1 hold the new
  values. The whole write runs in one transaction, which is what undoes the columns
  already written when the store fails.
\<close>

theorem update_settings_atomic:
  "(\<forall>e. fst (update_settings fault d db) = Inl e \<longrightarrow>
        snd (update_settings fault d db) = db)
   \<and> (fst (update_settings fault d db) = Inr () \<longrightarrow>
        (\<exists>q. bind_params d = Inr q \<and>
          snd (update_settings fault d db) =
            map (\<lambda>r. if settings_id r = 1
                     then r\<lparr>calories := b_cal q, protein_g := b_p q, fat_g := b_f q,
                            carb_g_rest := b_cr q, carb_g_lift := b_cl q,
                            carb_g_football := b_cf q, tdee := b_tdee q\<rparr>
                     else r) db))"
  using update_settings_failure [of fault d db] update_settings_success [of fault d db]
  by blast

text \<open>
  The witness: the store fails after three of the seven assignments. The working copy
  of the statement already differs from the table, the call fails, and the table is the
  seeded one, as before.
\<close>

theorem update_settings_atomic_witness:
  "fst (update_settings (Some 3) (dict_set ''calories'' (PInt 2000) (get_settings [seed_row]))
         [seed_row]) = Inl OperationalError
   \<and> snd (update_settings (Some 3) (dict_set ''calories'' (PInt 2000) (get_settings [seed_row]))
         [seed_row]) = [seed_row]
   \<and> snd (sql_update (Some 3)
         \<lparr>b_cal = 2000, b_p = 190, b_f = 60, b_cr = 220, b_cl = 280, b_cf = 320,
          b_tdee = 3000\<rparr> [seed_row]) \<noteq> [seed_row]"
proof -
  let ?d = "dict_set ''calories'' (PInt 2000) (get_settings [seed_row])"
  have failed: "fst (update_settings (Some 3) ?d [seed_row]) = Inl OperationalError"
    by (simp add: update_settings_def begin_txn_def Let_def sql_update_def
        get_settings_def to_dict_def bind_params_def int_item_def bind_err_def
        py_getitem_def py_int_def)
  have partial: "snd (sql_update (Some 3)
         \<lparr>b_cal = 2000, b_p = 190, b_f = 60, b_cr = 220, b_cl = 280, b_cf = 320,
          b_tdee = 3000\<rparr> [seed_row]) \<noteq> [seed_row]"
    by (simp add: sql_update_def apply_clauses_def set_clauses_def seed_row_def)
  from failed partial update_settings_atomic [of "Some 3" ?d "[seed_row]"]
  show ?thesis
    by simp
qed

subsection \<open>Weekly training volume\<close>













subsection \<open>Progress photos\<close>

 
lemma round_aspect_ge: "1 \<le> round_aspect number key"
  unfolding round_aspect_def by simp














subsection \<open>CSV export and import of the workouts\<close>












end
